theory Spec2Isabelle
  imports Complex_Main
begin

section \<open>Data model (schemas/pet.schema.ts, dto/update-pet.dto.ts)\<close>

text \<open>
  The pet service of fishpi\_pokemon, embedded shallowly. A JavaScript \<open>Date\<close> is its
  \<open>getTime()\<close> value, an integer number of milliseconds. The numeric fields of a pet
  are whole numbers: the schema defaults are 1, 0 and 100 and every amount the service
  adds or subtracts is a whole number. The one place where the service forms a fraction,
  the elapsed hours of the time decay, is computed in exact rationals; the rounding of
  JavaScript's doubles is not modelled.
\<close>

type_synonym date = int

datatype PetType = FISH | CAT

datatype PetStatus = ACTIVE | SLEEPING | SICK | HAPPY | HUNGRY

record Pet =
  pet_id :: string
  name :: string
  petType :: PetType
  userId :: string
  level :: int
  experience :: int
  health :: int
  hunger :: int
  happiness :: int
  energy :: int
  status :: PetStatus
  lastFed :: date
  lastPlayed :: date
  lastSlept :: date
  avatar :: "string option"
  battlesWon :: int
  battlesLost :: int
  is_active :: bool

text \<open>
  \<open>UpdatePetDto\<close>: every field is optional; \<open>None\<close> is a field the caller left out.
\<close>

record UpdatePetDto =
  upd_name :: "string option"
  upd_petType :: "PetType option"
  upd_level :: "int option"
  upd_experience :: "int option"
  upd_health :: "int option"
  upd_hunger :: "int option"
  upd_happiness :: "int option"
  upd_energy :: "int option"
  upd_status :: "PetStatus option"
  upd_avatar :: "string option"
  upd_battlesWon :: "int option"
  upd_battlesLost :: "int option"
  upd_is_active :: "bool option"
  upd_lastFed :: "date option"
  upd_lastPlayed :: "date option"
  upd_lastSlept :: "date option"

definition noUpdate :: UpdatePetDto where
  "noUpdate = \<lparr> upd_name = None, upd_petType = None, upd_level = None,
     upd_experience = None, upd_health = None, upd_hunger = None,
     upd_happiness = None, upd_energy = None, upd_status = None, upd_avatar = None,
     upd_battlesWon = None, upd_battlesLost = None, upd_is_active = None,
     upd_lastFed = None, upd_lastPlayed = None, upd_lastSlept = None \<rparr>"

text \<open>The string values of the \<open>PetType\<close> enum, in declaration order.\<close>

fun PetType_value :: "PetType \<Rightarrow> string" where
  "PetType_value FISH = ''fish''"
| "PetType_value CAT = ''cat''"

definition PetType_values :: "string list" where
  "PetType_values = map PetType_value [FISH, CAT]"

text \<open>\<open>@IsEnum(PetType)\<close> of the creation DTO: the value is one of the enum's values.\<close>

definition isEnum_PetType :: "string \<Rightarrow> bool" where
  "isEnum_PetType v = (v \<in> set PetType_values)"

definition getPetTypes :: "string list" where
  "getPetTypes = PetType_values"

section \<open>The store (the Mongoose model behind the service)\<close>

text \<open>
  The collection is the list of its documents. \<open>findByIdAndUpdate\<close> sets the fields the
  update names on the document with the given identifier and leaves the others.
\<close>

type_synonym store = "Pet list"

definition setField :: "'a option \<Rightarrow> 'a \<Rightarrow> 'a" where
  "setField u old = (case u of None \<Rightarrow> old | Some v \<Rightarrow> v)"

definition applyUpdate :: "UpdatePetDto \<Rightarrow> Pet \<Rightarrow> Pet" where
  "applyUpdate d p = p \<lparr>
     name := setField (upd_name d) (name p),
     petType := setField (upd_petType d) (petType p),
     level := setField (upd_level d) (level p),
     experience := setField (upd_experience d) (experience p),
     health := setField (upd_health d) (health p),
     hunger := setField (upd_hunger d) (hunger p),
     happiness := setField (upd_happiness d) (happiness p),
     energy := setField (upd_energy d) (energy p),
     status := setField (upd_status d) (status p),
     avatar := (case upd_avatar d of None \<Rightarrow> avatar p | Some a \<Rightarrow> Some a),
     battlesWon := setField (upd_battlesWon d) (battlesWon p),
     battlesLost := setField (upd_battlesLost d) (battlesLost p),
     is_active := setField (upd_is_active d) (is_active p),
     lastFed := setField (upd_lastFed d) (lastFed p),
     lastPlayed := setField (upd_lastPlayed d) (lastPlayed p),
     lastSlept := setField (upd_lastSlept d) (lastSlept p) \<rparr>"

definition findAll :: "store \<Rightarrow> Pet list" where
  "findAll s = s"

definition findByUserId :: "string \<Rightarrow> store \<Rightarrow> Pet list" where
  "findByUserId u s = filter (\<lambda>p. userId p = u \<and> is_active p = True) s"

definition findById :: "string \<Rightarrow> store \<Rightarrow> Pet option" where
  "findById i s = find (\<lambda>p. pet_id p = i) s"

fun update :: "string \<Rightarrow> UpdatePetDto \<Rightarrow> store \<Rightarrow> store" where
  "update i d [] = []"
| "update i d (p # s) =
     (if pet_id p = i then applyUpdate d p # s else p # update i d s)"

section \<open>The pet state engine (pets.service.ts)\<close>

definition calculatePetStatus :: "int \<Rightarrow> int \<Rightarrow> int \<Rightarrow> int \<Rightarrow> PetStatus" where
  "calculatePetStatus hungerv healthv energyv happinessv =
     (if healthv < 30 then SICK
      else if energyv < 20 then SLEEPING
      else if hungerv < 30 then HUNGRY
      else if happinessv > 80 \<and> healthv > 80 \<and> energyv > 60 then HAPPY
      else ACTIVE)"

text \<open>The update that \<open>feedPet\<close> sends for the pet it found.\<close>

definition feedUpdate :: "Pet \<Rightarrow> date \<Rightarrow> UpdatePetDto" where
  "feedUpdate pet now =
     (let newHunger = min 100 (hunger pet + 30);
          newHappiness = min 100 (happiness pet + 10);
          newExperience = experience pet + 10;
          newLevel = \<lfloor>of_int newExperience / (100 :: rat)\<rfloor> + 1;
          newStatus = calculatePetStatus newHunger (health pet) (energy pet) newHappiness
      in noUpdate \<lparr> upd_hunger := Some newHunger, upd_happiness := Some newHappiness,
           upd_experience := Some newExperience, upd_level := Some newLevel,
           upd_status := Some newStatus, upd_lastFed := Some now \<rparr>)"

definition playUpdate :: "Pet \<Rightarrow> date \<Rightarrow> UpdatePetDto" where
  "playUpdate pet now =
     (let newHappiness = min 100 (happiness pet + 25);
          newEnergy = max 0 (energy pet - 20);
          newHunger = max 0 (hunger pet - 15);
          newExperience = experience pet + 15;
          newLevel = \<lfloor>of_int newExperience / (100 :: rat)\<rfloor> + 1;
          newStatus = calculatePetStatus newHunger (health pet) newEnergy newHappiness
      in noUpdate \<lparr> upd_happiness := Some newHappiness, upd_energy := Some newEnergy,
           upd_hunger := Some newHunger, upd_experience := Some newExperience,
           upd_level := Some newLevel, upd_status := Some newStatus,
           upd_lastPlayed := Some now \<rparr>)"

definition sleepUpdate :: "Pet \<Rightarrow> date \<Rightarrow> UpdatePetDto" where
  "sleepUpdate pet now =
     (let newEnergy = min 100 (energy pet + 40);
          newHealth = min 100 (health pet + 10);
          newStatus = (if newEnergy > 80 then ACTIVE else SLEEPING)
      in noUpdate \<lparr> upd_energy := Some newEnergy, upd_health := Some newHealth,
           upd_status := Some newStatus, upd_lastSlept := Some now \<rparr>)"

definition healUpdate :: "Pet \<Rightarrow> UpdatePetDto" where
  "healUpdate pet =
     (let newHealth = min 100 (health pet + 30);
          newStatus = calculatePetStatus (hunger pet) newHealth (energy pet) (happiness pet)
      in noUpdate \<lparr> upd_health := Some newHealth, upd_status := Some newStatus \<rparr>)"

text \<open>
  Elapsed hours between two dates: \<open>(now.getTime() - last.getTime()) / (1000 * 60 * 60)\<close>.
\<close>

definition hoursSince :: "date \<Rightarrow> date \<Rightarrow> rat" where
  "hoursSince now lastv = of_int (now - lastv) / of_int (1000 * 60 * 60)"

definition decayUpdate :: "Pet \<Rightarrow> date \<Rightarrow> UpdatePetDto" where
  "decayUpdate pet now =
     (let hoursSinceLastFed = hoursSince now (lastFed pet);
          hoursSinceLastPlay = hoursSince now (lastPlayed pet);
          hoursSinceLastSleep = hoursSince now (lastSlept pet);
          newHunger = max 0 (hunger pet - \<lfloor>hoursSinceLastFed * 2\<rfloor>);
          newHappiness = max 0 (happiness pet - \<lfloor>hoursSinceLastPlay * (3 / 2)\<rfloor>);
          newEnergy = max 0 (energy pet - \<lfloor>hoursSinceLastSleep * 1\<rfloor>);
          newStatus = calculatePetStatus newHunger (health pet) newEnergy newHappiness
      in noUpdate \<lparr> upd_hunger := Some newHunger, upd_happiness := Some newHappiness,
           upd_energy := Some newEnergy, upd_status := Some newStatus \<rparr>)"

text \<open>
  The five transitions on one pet record: the record as the store holds it after the
  service method has sent its update for that pet.
\<close>

definition feed :: "Pet \<Rightarrow> date \<Rightarrow> Pet" where
  "feed pet now = applyUpdate (feedUpdate pet now) pet"

definition play :: "Pet \<Rightarrow> date \<Rightarrow> Pet" where
  "play pet now = applyUpdate (playUpdate pet now) pet"

definition sleep :: "Pet \<Rightarrow> date \<Rightarrow> Pet" where
  "sleep pet now = applyUpdate (sleepUpdate pet now) pet"

definition heal :: "Pet \<Rightarrow> date \<Rightarrow> Pet" where
  "heal pet now = applyUpdate (healUpdate pet) pet"

definition decay :: "Pet \<Rightarrow> date \<Rightarrow> Pet" where
  "decay pet now = applyUpdate (decayUpdate pet now) pet"

text \<open>
  The service methods on the store. A missing pet is the \<open>NotFoundException\<close>; otherwise
  the method returns the store after \<open>findByIdAndUpdate\<close>.
\<close>

datatype error = NotFoundException | ValidationError

definition feedPet :: "string \<Rightarrow> date \<Rightarrow> store \<Rightarrow> error + store" where
  "feedPet i now s =
     (case findById i s of None \<Rightarrow> Inl NotFoundException
      | Some pet \<Rightarrow> Inr (update i (feedUpdate pet now) s))"

definition playWithPet :: "string \<Rightarrow> date \<Rightarrow> store \<Rightarrow> error + store" where
  "playWithPet i now s =
     (case findById i s of None \<Rightarrow> Inl NotFoundException
      | Some pet \<Rightarrow> Inr (update i (playUpdate pet now) s))"

definition sleepPet :: "string \<Rightarrow> date \<Rightarrow> store \<Rightarrow> error + store" where
  "sleepPet i now s =
     (case findById i s of None \<Rightarrow> Inl NotFoundException
      | Some pet \<Rightarrow> Inr (update i (sleepUpdate pet now) s))"

definition healPet :: "string \<Rightarrow> store \<Rightarrow> error + store" where
  "healPet i s =
     (case findById i s of None \<Rightarrow> Inl NotFoundException
      | Some pet \<Rightarrow> Inr (update i (healUpdate pet) s))"

text \<open>
  \<open>updatePetStatsOverTime\<close>: the loop runs over the pets that \<open>findAll\<close> returned and
  sends, for each, the update computed from that snapshot to the store.
\<close>

fun decayLoop :: "Pet list \<Rightarrow> date \<Rightarrow> store \<Rightarrow> store" where
  "decayLoop [] now s = s"
| "decayLoop (pet # pets) now s = decayLoop pets now (update (pet_id pet) (decayUpdate pet now) s)"

definition updatePetStatsOverTime :: "date \<Rightarrow> store \<Rightarrow> store" where
  "updatePetStatsOverTime now s = decayLoop (findAll s) now s"

text \<open>
  \<open>create\<close>: the document is built from the creation DTO and the schema's defaults and
  saved. Saving validates the schema: \<open>name\<close> and \<open>userId\<close> are required, and \<open>type\<close> is
  required and must be a value of the \<open>PetType\<close> enum. The identifier the database assigns
  is the parameter \<open>newId\<close>; \<open>now\<close> is the \<open>Date.now\<close> default of the three timestamps.
\<close>

record CreatePetDto =
  new_name :: string
  new_type :: string
  new_userId :: string
  new_avatar :: "string option"

definition PetType_of_value :: "string \<Rightarrow> PetType option" where
  "PetType_of_value v = find (\<lambda>t. PetType_value t = v) [FISH, CAT]"

definition newPet :: "string \<Rightarrow> date \<Rightarrow> CreatePetDto \<Rightarrow> PetType \<Rightarrow> Pet" where
  "newPet newId now dto t =
     \<lparr> pet_id = newId, name = new_name dto, petType = t, userId = new_userId dto,
       level = 1, experience = 0, health = 100, hunger = 100, happiness = 100,
       energy = 100, status = ACTIVE, lastFed = now, lastPlayed = now, lastSlept = now,
       avatar = new_avatar dto, battlesWon = 0, battlesLost = 0, is_active = True \<rparr>"

definition create :: "string \<Rightarrow> date \<Rightarrow> CreatePetDto \<Rightarrow> store \<Rightarrow> error + store" where
  "create newId now dto s =
     (if new_name dto = [] \<or> new_userId dto = [] then Inl ValidationError
      else case PetType_of_value (new_type dto) of
             None \<Rightarrow> Inl ValidationError
           | Some t \<Rightarrow> Inr (s @ [newPet newId now dto t]))"

section \<open>Notions of the specification used in the statements\<close>

text \<open>The specification's \<open>clamp(x, lo, hi)\<close>.\<close>

definition spec_clamp :: "int \<Rightarrow> int \<Rightarrow> int \<Rightarrow> int" where
  "spec_clamp x lo hi = max lo (min hi x)"

text \<open>The specification's level rule: \<open>level = floor(experience / 100) + 1\<close>.\<close>

definition spec_level_ok :: "Pet \<Rightarrow> bool" where
  "spec_level_ok p = (level p = experience p div 100 + 1)"

text \<open>A vital attribute within the range 0..100 of the data model.\<close>

definition inRange :: "int \<Rightarrow> bool" where
  "inRange v = (0 \<le> v \<and> v \<le> 100)"

definition vitalsInRange :: "Pet \<Rightarrow> bool" where
  "vitalsInRange p =
     (inRange (health p) \<and> inRange (hunger p) \<and> inRange (happiness p) \<and> inRange (energy p))"

text \<open>
  The fields the engine is not to touch: identifier, owner, type, battle counters and the
  soft-delete flag (and with them name and avatar).
\<close>

definition sameIdentity :: "Pet \<Rightarrow> Pet \<Rightarrow> bool" where
  "sameIdentity p q =
     (pet_id q = pet_id p \<and> userId q = userId p \<and> petType q = petType p
      \<and> name q = name p \<and> avatar q = avatar p
      \<and> battlesWon q = battlesWon p \<and> battlesLost q = battlesLost p
      \<and> is_active q = is_active p)"

text \<open>
  Names for the three amounts that \<open>updatePetStatsOverTime\<close> subtracts:
  \<open>Math.floor(hoursSinceLastFed * 2)\<close>, \<open>Math.floor(hoursSinceLastPlay * 1.5)\<close> and
  \<open>Math.floor(hoursSinceLastSleep * 1)\<close>.
\<close>

definition hungerLoss :: "Pet \<Rightarrow> date \<Rightarrow> int" where
  "hungerLoss p now = \<lfloor>hoursSince now (lastFed p) * 2\<rfloor>"

definition happinessLoss :: "Pet \<Rightarrow> date \<Rightarrow> int" where
  "happinessLoss p now = \<lfloor>hoursSince now (lastPlayed p) * (3 / 2)\<rfloor>"

definition energyLoss :: "Pet \<Rightarrow> date \<Rightarrow> int" where
  "energyLoss p now = \<lfloor>hoursSince now (lastSlept p) * 1\<rfloor>"


text \<open>Decay applied again and again, at the times of a list.\<close>

fun decays :: "Pet \<Rightarrow> date list \<Rightarrow> Pet" where
  "decays p [] = p"
| "decays p (t # ts) = decays (decay p t) ts"

section \<open>Example records\<close>

text \<open>
  A pet half way through its vitals with 95 experience points, last fed, played with and
  put to sleep two hours after the epoch (7200000 ms).
\<close>

definition momo :: Pet where
  "momo = \<lparr> pet_id = ''p1'', name = ''Momo'', petType = CAT, userId = ''u1'',
     level = 1, experience = 95, health = 50, hunger = 50, happiness = 50,
     energy = 50, status = ACTIVE, lastFed = 7200000, lastPlayed = 7200000, lastSlept = 7200000,
     avatar = None, battlesWon = 0, battlesLost = 0, is_active = True \<rparr>"

text \<open>A freshly created pet (all vitals 100) whose owner has soft-deleted it.\<close>

definition nemo :: Pet where
  "nemo = \<lparr> pet_id = ''p2'', name = ''Nemo'', petType = FISH, userId = ''u1'',
     level = 1, experience = 0, health = 100, hunger = 100, happiness = 100,
     energy = 100, status = ACTIVE, lastFed = 7200000, lastPlayed = 7200000, lastSlept = 7200000,
     avatar = None, battlesWon = 0, battlesLost = 0, is_active = False \<rparr>"

text \<open>The creation request that made the first of them.\<close>

definition momoDto :: CreatePetDto where
  "momoDto = \<lparr> new_name = ''Momo'', new_type = ''cat'', new_userId = ''u1'',
     new_avatar = None \<rparr>"

section \<open>Auxiliary facts\<close>

text \<open>Each transition as one record update of its input.\<close>

lemma floor_div_100: "\<lfloor>of_int x / (100 :: rat)\<rfloor> = x div 100"
proof -
  have "of_int x / (100 :: rat) = of_int x / of_int 100" by simp
  then show ?thesis by (simp only: floor_divide_of_int_eq)
qed

lemma feed_eq:
  "feed p now = p \<lparr> level := (experience p + 10) div 100 + 1,
     experience := experience p + 10,
     hunger := min 100 (hunger p + 30),
     happiness := min 100 (happiness p + 10),
     status := calculatePetStatus (min 100 (hunger p + 30)) (health p) (energy p)
                 (min 100 (happiness p + 10)),
     lastFed := now \<rparr>"
  by (simp add: feed_def feedUpdate_def applyUpdate_def setField_def noUpdate_def Let_def
      floor_div_100)

lemma play_eq:
  "play p now = p \<lparr> level := (experience p + 15) div 100 + 1,
     experience := experience p + 15,
     hunger := max 0 (hunger p - 15),
     happiness := min 100 (happiness p + 25),
     energy := max 0 (energy p - 20),
     status := calculatePetStatus (max 0 (hunger p - 15)) (health p)
                 (max 0 (energy p - 20)) (min 100 (happiness p + 25)),
     lastPlayed := now \<rparr>"
  by (simp add: play_def playUpdate_def applyUpdate_def setField_def noUpdate_def Let_def
      floor_div_100)

lemma sleep_eq:
  "sleep p now = p \<lparr> health := min 100 (health p + 10),
     energy := min 100 (energy p + 40),
     status := (if min 100 (energy p + 40) > 80 then ACTIVE else SLEEPING),
     lastSlept := now \<rparr>"
  by (simp add: sleep_def sleepUpdate_def applyUpdate_def setField_def noUpdate_def Let_def)

lemma heal_eq:
  "heal p now = p \<lparr> health := min 100 (health p + 30),
     status := calculatePetStatus (hunger p) (min 100 (health p + 30)) (energy p)
                 (happiness p) \<rparr>"
  by (simp add: heal_def healUpdate_def applyUpdate_def setField_def noUpdate_def Let_def)

text \<open>The three decrements of the time decay, as integer divisions of the milliseconds.\<close>

lemma hungerLoss_div: "hungerLoss p now = (2 * (now - lastFed p)) div 3600000"
proof -
  have "hoursSince now (lastFed p) * 2 = of_int (2 * (now - lastFed p)) / of_int 3600000"
    by (simp add: hoursSince_def)
  then show ?thesis
    unfolding hungerLoss_def by (simp only: floor_divide_of_int_eq)
qed

lemma happinessLoss_div: "happinessLoss p now = (3 * (now - lastPlayed p)) div 7200000"
proof -
  have "hoursSince now (lastPlayed p) * (3 / 2) =
      of_int (3 * (now - lastPlayed p)) / of_int 7200000"
    by (simp add: hoursSince_def)
  then show ?thesis
    unfolding happinessLoss_def by (simp only: floor_divide_of_int_eq)
qed

lemma energyLoss_div: "energyLoss p now = (now - lastSlept p) div 3600000"
proof -
  have "hoursSince now (lastSlept p) * 1 = of_int (now - lastSlept p) / of_int 3600000"
    by (simp add: hoursSince_def)
  then show ?thesis
    unfolding energyLoss_def by (simp only: floor_divide_of_int_eq)
qed

lemma decay_eq:
  "decay p now = p \<lparr>
     hunger := max 0 (hunger p - hungerLoss p now),
     happiness := max 0 (happiness p - happinessLoss p now),
     energy := max 0 (energy p - energyLoss p now),
     status := calculatePetStatus (max 0 (hunger p - hungerLoss p now)) (health p)
                 (max 0 (energy p - energyLoss p now))
                 (max 0 (happiness p - happinessLoss p now)) \<rparr>"
  by (simp add: decay_def decayUpdate_def applyUpdate_def setField_def noUpdate_def Let_def
      hungerLoss_def happinessLoss_def energyLoss_def)

text \<open>
  The service methods and the transitions: a method fails for an identifier the store
  does not hold, and otherwise leaves under that identifier the transition of the pet
  it found.
\<close>

lemma findById_update:
  "findById i s = Some pet \<Longrightarrow> findById i (update i d s) = Some (applyUpdate d pet)"
  by (induction s) (auto simp: findById_def applyUpdate_def)

lemma feedPet_feeds:
  "findById i s = None \<Longrightarrow> feedPet i now s = Inl NotFoundException"
  "findById i s = Some pet \<Longrightarrow>
     \<exists>s'. feedPet i now s = Inr s' \<and> findById i s' = Some (feed pet now)"
  by (simp_all add: feedPet_def feed_def findById_update)

lemma playWithPet_plays:
  "findById i s = None \<Longrightarrow> playWithPet i now s = Inl NotFoundException"
  "findById i s = Some pet \<Longrightarrow>
     \<exists>s'. playWithPet i now s = Inr s' \<and> findById i s' = Some (play pet now)"
  by (simp_all add: playWithPet_def play_def findById_update)

lemma sleepPet_sleeps:
  "findById i s = None \<Longrightarrow> sleepPet i now s = Inl NotFoundException"
  "findById i s = Some pet \<Longrightarrow>
     \<exists>s'. sleepPet i now s = Inr s' \<and> findById i s' = Some (sleep pet now)"
  by (simp_all add: sleepPet_def sleep_def findById_update)

lemma healPet_heals:
  "findById i s = None \<Longrightarrow> healPet i s = Inl NotFoundException"
  "findById i s = Some pet \<Longrightarrow>
     \<exists>s'. healPet i s = Inr s' \<and> findById i s' = Some (heal pet now)"
  by (simp_all add: healPet_def heal_def findById_update)

section \<open>The status classifier\<close>

text \<open>
  C1. The classifier returns sick if health < 30; otherwise sleeping if energy < 20;
  otherwise hungry if hunger < 30; otherwise happy if happiness > 80, health > 80 and
  energy > 60; otherwise active. The input hunger 10, health 10, energy 10, happiness 90
  is sick.
\<close>

theorem C1_classifier:
  "calculatePetStatus hu he en ha =
     (if he < 30 then SICK
      else if en < 20 then SLEEPING
      else if hu < 30 then HUNGRY
      else if ha > 80 \<and> he > 80 \<and> en > 60 then HAPPY
      else ACTIVE)
   \<and> calculatePetStatus 10 10 10 90 = SICK"
  by (simp add: calculatePetStatus_def)

section \<open>Feed\<close>

text \<open>
  C3. For every pet of the data model (vitals from 0 to 100; of that only the lower
  bounds of hunger and happiness are used), feed sets hunger to clamp(hunger + 30, 0, 100)
  and happiness to clamp(happiness + 10, 0, 100), adds exactly 10 to experience,
  recomputes level as floor(new experience / 100) + 1, sets status by the classifier on
  the updated hunger and happiness with the unchanged health and energy, and sets lastFed
  to now. A pet with hunger 50, happiness 50 and experience 95 comes out with hunger 80,
  happiness 60, experience 105 and level 2.
\<close>

theorem C3_feed:
  assumes "0 \<le> hunger p" and "0 \<le> happiness p"
  shows "hunger (feed p now) = spec_clamp (hunger p + 30) 0 100
     \<and> happiness (feed p now) = spec_clamp (happiness p + 10) 0 100
     \<and> experience (feed p now) = experience p + 10
     \<and> level (feed p now) = experience (feed p now) div 100 + 1
     \<and> health (feed p now) = health p
     \<and> energy (feed p now) = energy p
     \<and> status (feed p now) =
         calculatePetStatus (hunger (feed p now)) (health p) (energy p) (happiness (feed p now))
     \<and> lastFed (feed p now) = now
     \<and> (hunger p = 50 \<and> happiness p = 50 \<and> experience p = 95 \<longrightarrow>
          hunger (feed p now) = 80 \<and> happiness (feed p now) = 60
          \<and> experience (feed p now) = 105 \<and> level (feed p now) = 2)"
  using assms by (simp add: feed_eq spec_clamp_def)

theorem C3_feed_witness:
  "0 \<le> hunger momo \<and> 0 \<le> happiness momo
   \<and> hunger (feed momo 9000000) = 80 \<and> happiness (feed momo 9000000) = 60
   \<and> experience (feed momo 9000000) = 105 \<and> level (feed momo 9000000) = 2
   \<and> status (feed momo 9000000) = ACTIVE \<and> lastFed (feed momo 9000000) = 9000000"
proof -
  have h: "0 \<le> hunger momo" "0 \<le> happiness momo"
    by (simp_all add: momo_def)
  have v: "hunger momo = 50" "happiness momo = 50" "experience momo = 95"
    "health momo = 50" "energy momo = 50"
    by (simp_all add: momo_def)
  from C3_feed [OF h, of 9000000] v show ?thesis
    by (simp add: calculatePetStatus_def spec_clamp_def)
qed

section \<open>Sleep\<close>

text \<open>
  C4. For every pet of the data model (vitals from 0 to 100; of that only the lower
  bounds of energy and health are used), sleep sets energy to clamp(energy + 40, 0, 100),
  health to clamp(health + 10, 0, 100) and lastSlept to now, and sets status to active if
  the new energy exceeds 80 and to sleeping otherwise. The general classifier is not
  consulted: the status is one of these two labels and is the same for any two pets of
  equal energy, whatever their hunger, happiness or health. Experience and level are
  unchanged. Sleeping from energy 50 and health 50 yields energy 90 and status active.
\<close>

theorem C4_sleep:
  assumes "0 \<le> energy p" and "0 \<le> health p"
  shows "energy (sleep p now) = spec_clamp (energy p + 40) 0 100
     \<and> health (sleep p now) = spec_clamp (health p + 10) 0 100
     \<and> lastSlept (sleep p now) = now
     \<and> status (sleep p now) = (if energy (sleep p now) > 80 then ACTIVE else SLEEPING)
     \<and> status (sleep p now) \<in> {ACTIVE, SLEEPING}
     \<and> (energy q = energy p \<longrightarrow> status (sleep q now') = status (sleep p now))
     \<and> experience (sleep p now) = experience p
     \<and> level (sleep p now) = level p
     \<and> (energy p = 50 \<and> health p = 50 \<longrightarrow>
          energy (sleep p now) = 90 \<and> status (sleep p now) = ACTIVE)"
  using assms by (simp add: sleep_eq spec_clamp_def)

text \<open>
  The witness: the example pet, and next to it the same pet with health 10 and hunger 0,
  which the classifier would call sick after the sleep and which comes out active.
\<close>

theorem C4_sleep_witness:
  "0 \<le> energy momo \<and> 0 \<le> health momo
   \<and> energy (sleep momo 9000000) = 90 \<and> health (sleep momo 9000000) = 60
   \<and> status (sleep momo 9000000) = ACTIVE \<and> lastSlept (sleep momo 9000000) = 9000000
   \<and> status (sleep (momo \<lparr> health := 10, hunger := 0 \<rparr>) 9000000) = ACTIVE
   \<and> calculatePetStatus 0 20 90 50 = SICK"
proof -
  have h: "0 \<le> energy momo" "0 \<le> health momo"
    by (simp_all add: momo_def)
  have v: "energy momo = 50" "health momo = 50"
    by (simp_all add: momo_def)
  from C4_sleep [OF h, of 9000000 "momo \<lparr> health := 10, hunger := 0 \<rparr>" 9000000] v
  show ?thesis
    by (simp add: calculatePetStatus_def spec_clamp_def)
qed

section \<open>Frame of heal and decay\<close>

text \<open>
  C8. Heal changes only health and status: experience, level, lastFed, lastPlayed and
  lastSlept keep their input values. Decay changes only hunger, happiness, energy and
  status: experience, level, health and the three action timestamps keep their input
  values. No transition modifies battlesWon, battlesLost, the identifier, the owner, the
  type or the active flag.
\<close>

theorem C8_frame:
  "heal p now = p \<lparr> health := health (heal p now), status := status (heal p now) \<rparr>
   \<and> experience (heal p now) = experience p \<and> level (heal p now) = level p
   \<and> lastFed (heal p now) = lastFed p \<and> lastPlayed (heal p now) = lastPlayed p
   \<and> lastSlept (heal p now) = lastSlept p
   \<and> decay p now = p \<lparr> hunger := hunger (decay p now),
        happiness := happiness (decay p now), energy := energy (decay p now),
        status := status (decay p now) \<rparr>
   \<and> experience (decay p now) = experience p \<and> level (decay p now) = level p
   \<and> health (decay p now) = health p
   \<and> lastFed (decay p now) = lastFed p \<and> lastPlayed (decay p now) = lastPlayed p
   \<and> lastSlept (decay p now) = lastSlept p
   \<and> sameIdentity p (feed p now) \<and> sameIdentity p (play p now)
   \<and> sameIdentity p (sleep p now) \<and> sameIdentity p (heal p now)
   \<and> sameIdentity p (decay p now)"
proof -
  have "heal p now = p \<lparr> health := health (heal p now), status := status (heal p now) \<rparr>"
    by (simp add: heal_eq)
  moreover have "decay p now = p \<lparr> hunger := hunger (decay p now),
        happiness := happiness (decay p now), energy := energy (decay p now),
        status := status (decay p now) \<rparr>"
    by (simp add: decay_eq)
  moreover have "sameIdentity p (feed p now)" "sameIdentity p (play p now)"
    "sameIdentity p (sleep p now)" "sameIdentity p (heal p now)"
    "sameIdentity p (decay p now)"
    by (simp_all add: sameIdentity_def feed_eq play_eq sleep_eq heal_eq decay_eq)
  moreover have "experience (heal p now) = experience p" "level (heal p now) = level p"
    "lastFed (heal p now) = lastFed p" "lastPlayed (heal p now) = lastPlayed p"
    "lastSlept (heal p now) = lastSlept p"
    by (simp_all add: heal_eq)
  moreover have "experience (decay p now) = experience p" "level (decay p now) = level p"
    "health (decay p now) = health p"
    "lastFed (decay p now) = lastFed p" "lastPlayed (decay p now) = lastPlayed p"
    "lastSlept (decay p now) = lastSlept p"
    by (simp_all add: decay_eq)
  ultimately show ?thesis by blast
qed

section \<open>Level and experience\<close>

text \<open>
  The claim C6 as stated, that the output of every transition has
  level = floor(experience / 100) + 1, fails for sleep, heal and decay. The update
  method stores a level on its own (its DTO checks level and experience separately), and
  the three transitions pass it on: the example pet with its level set to 2 keeps level
  2 at experience 95, where the rule gives level 1.
\<close>

theorem C6_level_not_recomputed:
  "level (sleep (momo \<lparr> level := 2 \<rparr>) 7200000) = 2
   \<and> experience (sleep (momo \<lparr> level := 2 \<rparr>) 7200000) = 95
   \<and> \<not> spec_level_ok (sleep (momo \<lparr> level := 2 \<rparr>) 7200000)
   \<and> level (heal (momo \<lparr> level := 2 \<rparr>) 7200000) = 2
   \<and> experience (heal (momo \<lparr> level := 2 \<rparr>) 7200000) = 95
   \<and> \<not> spec_level_ok (heal (momo \<lparr> level := 2 \<rparr>) 7200000)
   \<and> level (decay (momo \<lparr> level := 2 \<rparr>) 7200000) = 2
   \<and> experience (decay (momo \<lparr> level := 2 \<rparr>) 7200000) = 95
   \<and> \<not> spec_level_ok (decay (momo \<lparr> level := 2 \<rparr>) 7200000)"
proof -
  have v: "experience momo = 95"
    by (simp add: momo_def)
  show ?thesis
    by (simp add: spec_level_ok_def sleep_eq heal_eq decay_eq v)
qed

text \<open>
  C6, amended. A newly created pet has level = floor(experience / 100) + 1, and so has
  the output of feed and of play, whatever the input. Sleep, heal and decay write
  neither level nor experience: their output has the input's level and experience, and
  so satisfies the rule exactly when the input does. Nowhere does the engine set level
  other than from experience.
\<close>

theorem C6_level_consistency:
  "spec_level_ok (newPet i now dto t)
   \<and> spec_level_ok (feed p now) \<and> spec_level_ok (play p now)
   \<and> level (sleep p now) = level p \<and> experience (sleep p now) = experience p
   \<and> level (heal p now) = level p \<and> experience (heal p now) = experience p
   \<and> level (decay p now) = level p \<and> experience (decay p now) = experience p
   \<and> spec_level_ok (sleep p now) = spec_level_ok p
   \<and> spec_level_ok (heal p now) = spec_level_ok p
   \<and> spec_level_ok (decay p now) = spec_level_ok p
   \<and> (spec_level_ok p \<longrightarrow>
        spec_level_ok (sleep p now) \<and> spec_level_ok (heal p now)
        \<and> spec_level_ok (decay p now))"
  by (simp add: spec_level_ok_def newPet_def feed_eq play_eq sleep_eq heal_eq decay_eq)

theorem C6_level_consistency_witness:
  "spec_level_ok momo
   \<and> spec_level_ok (sleep momo 7200000) \<and> spec_level_ok (heal momo 7200000)
   \<and> spec_level_ok (decay momo 7200000)
   \<and> level (feed momo 7200000) = 2 \<and> experience (feed momo 7200000) = 105
   \<and> level (play momo 7200000) = 2 \<and> experience (play momo 7200000) = 110"
proof -
  have h: "spec_level_ok momo"
    by (simp add: spec_level_ok_def momo_def)
  have v: "experience momo = 95"
    by (simp add: momo_def)
  have f: "experience (feed momo 7200000) = 105" "experience (play momo 7200000) = 110"
    by (simp_all add: feed_eq play_eq v)
  from C6_level_consistency [of "''p1''" 7200000 momoDto CAT momo] h f
  show ?thesis
    by (simp add: spec_level_ok_def)
qed

section \<open>The range of the vital attributes\<close>

text \<open>
  What holds of the range 0..100: feed, play, sleep and heal keep a pet within it; decay
  never takes a vital below 0, however often and at whatever times it runs; and decay
  keeps a pet within the range when none of its three timestamps is later than now.
\<close>

lemma feed_in_range: "vitalsInRange p \<Longrightarrow> vitalsInRange (feed p now)"
  by (simp add: vitalsInRange_def inRange_def feed_eq)

lemma play_in_range: "vitalsInRange p \<Longrightarrow> vitalsInRange (play p now)"
  by (simp add: vitalsInRange_def inRange_def play_eq)

lemma sleep_in_range: "vitalsInRange p \<Longrightarrow> vitalsInRange (sleep p now)"
  by (simp add: vitalsInRange_def inRange_def sleep_eq)

lemma heal_in_range: "vitalsInRange p \<Longrightarrow> vitalsInRange (heal p now)"
  by (simp add: vitalsInRange_def inRange_def heal_eq)

lemma decay_floor:
  "0 \<le> hunger (decay p now) \<and> 0 \<le> happiness (decay p now) \<and> 0 \<le> energy (decay p now)
   \<and> health (decay p now) = health p"
  by (simp add: decay_eq)

lemma decays_floor:
  "0 \<le> health p \<and> 0 \<le> hunger p \<and> 0 \<le> happiness p \<and> 0 \<le> energy p \<Longrightarrow>
   0 \<le> health (decays p ts) \<and> 0 \<le> hunger (decays p ts)
   \<and> 0 \<le> happiness (decays p ts) \<and> 0 \<le> energy (decays p ts)"
proof (induction ts arbitrary: p)
  case Nil
  then show ?case by simp
next
  case (Cons t ts)
  have "0 \<le> health (decay p t) \<and> 0 \<le> hunger (decay p t)
     \<and> 0 \<le> happiness (decay p t) \<and> 0 \<le> energy (decay p t)"
    using Cons.prems decay_floor [of p t] by simp
  then show ?case using Cons.IH [of "decay p t"] by simp
qed

lemma loss_nonneg:
  "lastFed p \<le> now \<Longrightarrow> 0 \<le> hungerLoss p now"
  "lastPlayed p \<le> now \<Longrightarrow> 0 \<le> happinessLoss p now"
  "lastSlept p \<le> now \<Longrightarrow> 0 \<le> energyLoss p now"
  by (simp_all add: hungerLoss_div happinessLoss_div energyLoss_div pos_imp_zdiv_nonneg_iff)

lemma decay_in_range:
  assumes "vitalsInRange p"
    and "lastFed p \<le> now" and "lastPlayed p \<le> now" and "lastSlept p \<le> now"
  shows "vitalsInRange (decay p now)"
  using assms(1) loss_nonneg(1) [OF assms(2)] loss_nonneg(2) [OF assms(3)]
    loss_nonneg(3) [OF assms(4)]
  by (simp add: decay_eq vitalsInRange_def inRange_def)

text \<open>
  C2. Every transition keeps the four vitals of an in-range pet within 0..100, whatever
  the timestamps, also when a last-action timestamp is later than now. The service's
  decay does not: for the fresh pet (all vitals 100, in range) whose three
  timestamps are one millisecond later than now, each elapsed time is negative, each
  floor is -1, and hunger, happiness and energy come out as 101.
\<close>

theorem C2_decay_leaves_range:
  "vitalsInRange nemo
   \<and> lastFed nemo = 7200000 \<and> lastPlayed nemo = 7200000 \<and> lastSlept nemo = 7200000
   \<and> hunger (decay nemo 7199999) = 101 \<and> happiness (decay nemo 7199999) = 101
   \<and> energy (decay nemo 7199999) = 101
   \<and> \<not> vitalsInRange (decay nemo 7199999)"
  by (simp add: vitalsInRange_def inRange_def decay_eq hungerLoss_div happinessLoss_div
      energyLoss_div nemo_def)

section \<open>The decay formula\<close>

text \<open>
  What holds of the formula: for a pet whose hunger, happiness and energy are at most 100
  and whose timestamps are not later than now, decay computes the three clamped
  differences of the specification, and the status is the classifier's on the new values.
\<close>

lemma decay_formula:
  assumes "hunger p \<le> 100" and "happiness p \<le> 100" and "energy p \<le> 100"
    and "lastFed p \<le> now" and "lastPlayed p \<le> now" and "lastSlept p \<le> now"
  shows "hunger (decay p now) = spec_clamp (hunger p - hungerLoss p now) 0 100
     \<and> happiness (decay p now) = spec_clamp (happiness p - happinessLoss p now) 0 100
     \<and> energy (decay p now) = spec_clamp (energy p - energyLoss p now) 0 100
     \<and> health (decay p now) = health p
     \<and> status (decay p now) =
           calculatePetStatus (hunger (decay p now)) (health p) (energy (decay p now))
             (happiness (decay p now))"
  using assms(1-3) loss_nonneg(1) [OF assms(4)] loss_nonneg(2) [OF assms(5)]
    loss_nonneg(3) [OF assms(6)]
  by (simp add: decay_eq spec_clamp_def)

text \<open>
  C5. Decay sets hunger to clamp(hunger - floor(hoursSinceFed * 2), 0, 100), and
  happiness and energy likewise with the rates 1.5 and 1, each from its own timestamp;
  health is not decayed. The service's decay agrees on the two examples: the fresh pet
  fed exactly one hour ago comes out with hunger 98, and fed 0.4 hours ago with hunger
  100. It does not agree when the pet was fed one millisecond later than now: the
  elapsed time is negative, its floor is -1, and hunger comes out as 101 where the
  clamped difference is 100.
\<close>

theorem C5_decay_formula_examples:
  "hunger nemo = 100 \<and> lastFed nemo = 7200000
   \<and> hoursSince 10800000 (lastFed nemo) = 1 \<and> hunger (decay nemo 10800000) = 98
   \<and> hoursSince 8640000 (lastFed nemo) = 2 / 5 \<and> hunger (decay nemo 8640000) = 100
   \<and> hungerLoss nemo 7199999 = - 1
   \<and> hunger (decay nemo 7199999) = 101
   \<and> spec_clamp (hunger nemo - hungerLoss nemo 7199999) 0 100 = 100"
proof -
  have v: "hunger nemo = 100" "lastFed nemo = 7200000"
    by (simp_all add: nemo_def)
  have h: "hoursSince 10800000 7200000 = 1" "hoursSince 8640000 7200000 = 2 / 5"
    by (simp_all add: hoursSince_def)
  have f: "hungerLoss nemo 10800000 = 2" "hungerLoss nemo 8640000 = 0"
    "hungerLoss nemo 7199999 = - 1"
    by (simp_all add: hungerLoss_div v)
  show ?thesis
    by (simp add: v h f decay_eq spec_clamp_def)
qed

section \<open>Calling a transition twice with the same time\<close>










section \<open>Pet types\<close>

text \<open>
  C9. The claim is that cat, dog, bird, fish and rabbit, and only they, are accepted as a
  pet's type at creation and returned by the pet-types query. The service's \<open>PetType\<close>
  enum has the two members fish and cat: the query returns these two, the enum check of
  the creation DTO rejects dog, bird and rabbit, and creating a dog fails validation
  where creating a cat stores the new pet.
\<close>

theorem C9_pet_types:
  "getPetTypes = [''fish'', ''cat'']
   \<and> isEnum_PetType ''fish'' \<and> isEnum_PetType ''cat''
   \<and> \<not> isEnum_PetType ''dog'' \<and> \<not> isEnum_PetType ''bird''
   \<and> \<not> isEnum_PetType ''rabbit''
   \<and> create ''p1'' 7200000 momoDto [] = Inr [newPet ''p1'' 7200000 momoDto CAT]
   \<and> create ''p3'' 7200000 (momoDto \<lparr> new_type := ''dog'' \<rparr>) [] = Inl ValidationError"
  by (simp add: getPetTypes_def PetType_values_def isEnum_PetType_def create_def
      PetType_of_value_def momoDto_def)

section \<open>The batch decay\<close>

lemma pet_id_applyUpdate: "pet_id (applyUpdate d p) = pet_id p"
  by (simp add: applyUpdate_def)

lemma update_skip:
  "\<forall>q \<in> set done. pet_id q \<noteq> i \<Longrightarrow> update i d (done @ s) = done @ update i d s"
  by (induction "done") simp_all

text \<open>
  The loop invariant: the documents before the current one are already decayed, the
  rest of the store is still the snapshot's.
\<close>

lemma decayLoop_snapshot:
  "distinct (map pet_id ys) \<Longrightarrow> \<forall>q \<in> set done. pet_id q \<notin> pet_id ` set ys \<Longrightarrow>
   decayLoop ys now (done @ ys) = done @ map (\<lambda>p. decay p now) ys"
proof (induction ys arbitrary: "done")
  case Nil
  then show ?case by simp
next
  case (Cons y ys)
  have skip: "\<forall>q \<in> set done. pet_id q \<noteq> pet_id y"
    using Cons.prems(2) by auto
  have step: "update (pet_id y) (decayUpdate y now) (done @ y # ys) =
      (done @ [decay y now]) @ ys"
    by (simp add: update_skip [OF skip] decay_def)
  have d: "distinct (map pet_id ys)"
    using Cons.prems(1) by simp
  have fresh: "\<forall>q \<in> set (done @ [decay y now]). pet_id q \<notin> pet_id ` set ys"
    using Cons.prems by (auto simp: decay_def pet_id_applyUpdate)
  have "decayLoop (y # ys) now (done @ y # ys) =
      decayLoop ys now ((done @ [decay y now]) @ ys)"
    by (simp only: decayLoop.simps step)
  also have "\<dots> = (done @ [decay y now]) @ map (\<lambda>p. decay p now) ys"
    by (rule Cons.IH [OF d fresh])
  finally show ?case by simp
qed

text \<open>
  C10. In a store whose documents have distinct identifiers (as the database's have),
  the batch decay applies the decay transition to every pet record, soft-deleted ones
  included: \<open>findAll\<close> filters nothing. The per-user listing, in contrast, leaves every
  pet out whose active flag is false.
\<close>

theorem C10_batch_decay:
  assumes "distinct (map pet_id s)"
  shows "findAll s = s
     \<and> updatePetStatsOverTime now s = map (\<lambda>p. decay p now) s
     \<and> (\<forall>p \<in> set s. \<not> is_active p \<longrightarrow>
          decay p now \<in> set (updatePetStatsOverTime now s) \<and> p \<notin> set (findByUserId u s))"
proof -
  have m: "updatePetStatsOverTime now s = map (\<lambda>p. decay p now) s"
    using decayLoop_snapshot [of s "[]" now] assms
    by (simp add: updatePetStatsOverTime_def findAll_def)
  then show ?thesis
    by (simp add: findAll_def findByUserId_def)
qed

text \<open>
  The witness: a store of the example pet and the soft-deleted fresh pet, both of user
  u1, one hour after their timestamps. The listing shows the first only; the batch decay
  takes two points of hunger from both.
\<close>

theorem C10_batch_decay_witness:
  "distinct (map pet_id [momo, nemo])
   \<and> \<not> is_active nemo
   \<and> findByUserId ''u1'' [momo, nemo] = [momo]
   \<and> updatePetStatsOverTime 10800000 [momo, nemo] = [decay momo 10800000, decay nemo 10800000]
   \<and> hunger (decay momo 10800000) = 48 \<and> hunger (decay nemo 10800000) = 98"
proof -
  have d: "distinct (map pet_id [momo, nemo])"
    by (simp add: momo_def nemo_def)
  have l: "hungerLoss momo 10800000 = 2" "hungerLoss nemo 10800000 = 2"
    by (simp_all add: hungerLoss_div momo_def nemo_def)
  have h: "hunger (decay momo 10800000) = 48" "hunger (decay nemo 10800000) = 98"
    by (simp_all add: decay_eq l) (simp_all add: momo_def nemo_def)
  have f: "findByUserId ''u1'' [momo, nemo] = [momo]" "\<not> is_active nemo"
    by (simp_all add: findByUserId_def momo_def nemo_def)
  from C10_batch_decay [OF d, of 10800000 "''u1''"] d h f show ?thesis
    by simp
qed

end
